theory Spec2Isabelle
  imports Main "HOL-Library.Word" "HOL-Library.Signed_Division"
begin

unbundle bit_operations_syntax

section \<open>Machine integers and time\<close>

text \<open>
  Go's \<^verbatim>\<open>int64\<close> is a 64-bit word read as two's complement (\<open>sint\<close>); \<open>-\<close> wraps
  around. \<^verbatim>\<open>time.Duration\<close> is an \<^verbatim>\<open>int64\<close> count of nanoseconds. A
  \<^verbatim>\<open>time.Time\<close> instant is an integer; only equality of instants is used.
\<close>

type_synonym int64 = "64 word"
type_synonym Duration = "64 word"
type_synonym Time = int

definition Second :: Duration where
  "Second = 1000000000"

definition Minute :: Duration where
  "Minute = 60 * Second"

text \<open>
  \<^verbatim>\<open>int64(tolerance.Seconds())\<close>. \<^verbatim>\<open>Duration.Seconds\<close> is
  \<^verbatim>\<open>float64(d / Second) + float64(d % Second) / 1e9\<close> and the conversion to
  \<^verbatim>\<open>int64\<close> truncates towards zero. For a whole number of seconds (the handler
  passes \<^verbatim>\<open>5*time.Minute\<close>) the remainder is 0 and the quotient, below \<open>2 ^ 53\<close>, is
  a float exactly, so the result is the truncating quotient of the two signed values.
\<close>

definition Seconds_int64 :: "Duration \<Rightarrow> int64" where
  "Seconds_int64 d = word_of_int (sint d sdiv sint Second)"

section \<open>Decimal text\<close>

text \<open>
  \<^verbatim>\<open>strconv.FormatInt(i, 10)\<close>, which \<^verbatim>\<open>%d\<close> and \<^verbatim>\<open>big.Int.String\<close> print:
  the digits of the magnitude, most significant first, no leading zero, and a leading
  \<^verbatim>\<open>-\<close> for a negative number.
\<close>

definition digits :: string where
  "digits = ''0123456789''"

function FormatUint :: "nat \<Rightarrow> string" where
  "FormatUint n = (if n < 10 then [digits ! n] else FormatUint (n div 10) @ [digits ! (n mod 10)])"
  by pat_completeness auto
termination
  by (relation "measure id") auto

declare FormatUint.simps [simp del]

definition FormatInt :: "int \<Rightarrow> string" where
  "FormatInt i = (if i < 0 then CHR ''-'' # FormatUint (nat (- i)) else FormatUint (nat i))"

text \<open>
  The text of an integer as \<^verbatim>\<open>strconv.ParseInt(s, 10, _)\<close> and
  \<^verbatim>\<open>big.Int.SetString(s, 10)\<close> read it: an optional sign, then one or more decimal
  digits and nothing else.
\<close>

definition is_digit :: "char \<Rightarrow> bool" where
  "is_digit c = (48 \<le> (of_char c :: nat) \<and> (of_char c :: nat) \<le> 57)"

definition digit_val :: "char \<Rightarrow> nat" where
  "digit_val c = of_char c - 48"

definition parse_digits :: "string \<Rightarrow> nat" where
  "parse_digits ds = foldl (\<lambda>acc c. 10 * acc + digit_val c) 0 ds"

fun ParseInt :: "string \<Rightarrow> int option" where
  "ParseInt [] = None"
| "ParseInt (c # cs) =
     (let neg = (c = CHR ''-'');
          ds = (if c = CHR ''-'' \<or> c = CHR ''+'' then cs else c # cs)
      in if ds \<noteq> [] \<and> list_all is_digit ds
         then Some (if neg then - int (parse_digits ds) else int (parse_digits ds))
         else None)"

definition ParseInt32 :: "string \<Rightarrow> int option" where
  "ParseInt32 s =
     (case ParseInt s of
        None \<Rightarrow> None
      | Some v \<Rightarrow> if - (2 ^ 31) \<le> v \<and> v < 2 ^ 31 then Some v else None)"

section \<open>The decimal library\<close>

text \<open>
  \<^verbatim>\<open>model.go\<close> declares \<^verbatim>\<open>Amount decimal.Decimal\<close>, a type of the library
  \<^verbatim>\<open>github.com/shopspring/decimal\<close>: an arbitrary-precision coefficient and a
  32-bit exponent of ten, the number being \<open>d_value * 10 ^ d_exp\<close>. The three library
  functions the program reaches are modelled here after the library: \<^verbatim>\<open>NewFromString\<close>,
  \<^verbatim>\<open>UnmarshalJSON\<close> (which the JSON decoder calls with the bytes of the
  \<^verbatim>\<open>amount\<close> value) and \<^verbatim>\<open>String\<close> (which \<^verbatim>\<open>%s\<close> and
  \<^verbatim>\<open>webhook.Amount.String()\<close> call).
\<close>

record Decimal =
  d_value :: int
  d_exp :: int

definition not_e :: "char \<Rightarrow> bool" where
  "not_e c = (c \<noteq> CHR ''E'' \<and> c \<noteq> CHR ''e'')"

definition not_point :: "char \<Rightarrow> bool" where
  "not_point c = (c \<noteq> CHR ''.'')"

text \<open>
  \<^verbatim>\<open>NewFromString\<close>: the text after the first \<^verbatim>\<open>E\<close> or \<^verbatim>\<open>e\<close> is the exponent
  (a 32-bit integer); more than one point is an error; the digits around the point,
  joined, are the coefficient, and each digit after the point lowers the exponent by one;
  an exponent outside 32 bits is an error.
\<close>

definition NewFromString :: "string \<Rightarrow> Decimal option" where
  "NewFromString s =
     (let mant = takeWhile not_e s;
          rest = dropWhile not_e s;
          expo = (if rest = [] then Some 0 else ParseInt32 (tl rest))
      in case expo of
           None \<Rightarrow> None
         | Some e \<Rightarrow>
             if 1 < count_list mant CHR ''.'' then None
             else
               (let ip = takeWhile not_point mant;
                    fp = drop (Suc (length ip)) mant;
                    e' = e - int (length fp)
                in case ParseInt (ip @ fp) of
                     None \<Rightarrow> None
                   | Some v \<Rightarrow>
                       if - (2 ^ 31) \<le> e' \<and> e' < 2 ^ 31
                       then Some \<lparr>d_value = v, d_exp = e'\<rparr>
                       else None))"

text \<open>\<^verbatim>\<open>unquoteIfQuoted\<close>: a value of more than two bytes between double quotes loses them.\<close>

definition unquoteIfQuoted :: "string \<Rightarrow> string" where
  "unquoteIfQuoted bs =
     (if 2 < length bs \<and> hd bs = CHR 0x22 \<and> last bs = CHR 0x22
      then butlast (tl bs) else bs)"

text \<open>\<^verbatim>\<open>UnmarshalJSON\<close>: \<^verbatim>\<open>null\<close> leaves the zero decimal; anything else is parsed.\<close>

definition UnmarshalJSON :: "string \<Rightarrow> Decimal option" where
  "UnmarshalJSON decimalBytes =
     (if decimalBytes = ''null'' then Some \<lparr>d_value = 0, d_exp = 0\<rparr>
      else NewFromString (unquoteIfQuoted decimalBytes))"

text \<open>
  \<^verbatim>\<open>String\<close>: with a non-negative exponent, the integer \<open>d_value * 10 ^ d_exp\<close>.
  Otherwise the digits of the magnitude are split \<open>- d_exp\<close> places from the right
  (padded with zeros on the left when too short, the integer part then being \<^verbatim>\<open>0\<close>),
  the trailing zeros of the fractional part are dropped, the point is written only before
  a non-empty fractional part, and a negative number gets its sign.
\<close>

definition trimTrailingZeros :: "string \<Rightarrow> string" where
  "trimTrailingZeros fs = rev (dropWhile (\<lambda>c. c = CHR ''0'') (rev fs))"

definition String :: "Decimal \<Rightarrow> string" where
  "String d =
     (if 0 \<le> d_exp d then FormatInt (d_value d * 10 ^ nat (d_exp d))
      else
        (let str = FormatUint (nat \<bar>d_value d\<bar>);
             n = nat (- d_exp d);
             intPart = (if n < length str then take (length str - n) str else ''0'');
             fractionalPart =
               trimTrailingZeros
                 (if n < length str then drop (length str - n) str
                  else replicate (n - length str) CHR ''0'' @ str);
             number = (if fractionalPart = [] then intPart
                       else intPart @ CHR ''.'' # fractionalPart)
         in if d_value d < 0 then CHR ''-'' # number else number))"


section \<open>The data model\<close>

text \<open>
  \<^verbatim>\<open>model.go\<close>: the event and the response. \<^verbatim>\<open>Currency\<close> is a named string type.
\<close>

type_synonym Currency = string

definition ETB :: Currency where
  "ETB = ''ETB''"

record YayaWebhook =
  ID :: string
  Amount :: Decimal
  Currency :: Currency
  CreatedAtTime :: int64
  TimeStamp :: int64
  Cause :: string
  FullName :: string
  AccountName :: string
  InvoiceURL :: string

record Response =
  StatusCode :: int
  Message :: string
  Error :: string

definition StatusOK :: int where
  "StatusOK = 200"

definition StatusBadRequest :: int where
  "StatusBadRequest = 400"

text \<open>
  The handler's receiver holds the shared secret and the logger. The logger is modelled by
  the lines written to it, each a level and a message (the attributes of a line are left
  out); a function that logs returns its lines next to its result.
\<close>

record yaya =
  SecretKey :: string

datatype Level = INFO | ERROR

type_synonym log_line = "Level \<times> string"

section \<open>Signature reconstruction\<close>

text \<open>
  \<^verbatim>\<open>hex.EncodeToString\<close>: two characters of \<^verbatim>\<open>hextable\<close> for each byte \<^verbatim>\<open>v\<close>,
  \<^verbatim>\<open>hextable[v>>4]\<close> then \<^verbatim>\<open>hextable[v&0x0f]\<close>.
\<close>

definition hextable :: string where
  "hextable = ''0123456789abcdef''"

fun EncodeToString :: "8 word list \<Rightarrow> string" where
  "EncodeToString [] = []"
| "EncodeToString (b # bs) =
     hextable ! unat (drop_bit 4 b) # hextable ! unat (b AND 0x0f) # EncodeToString bs"

text \<open>
  \<^verbatim>\<open>
  signedPayload := fmt.Sprintf("%s%s%s%d%d%s%s%s%s",
      payload.ID, payload.Amount, payload.Currency, payload.CreatedAtTime,
      payload.TimeStamp, payload.Cause, payload.FullName, payload.AccountName,
      payload.InvoiceURL)
  \<close>
  \<^verbatim>\<open>%s\<close> prints a string as it is and the decimal through its \<^verbatim>\<open>String\<close> method;
  \<^verbatim>\<open>%d\<close> prints an \<^verbatim>\<open>int64\<close> in decimal.
\<close>

definition signedPayload :: "YayaWebhook \<Rightarrow> string" where
  "signedPayload payload =
     ID payload @ String (Amount payload) @ Currency payload
     @ FormatInt (sint (CreatedAtTime payload)) @ FormatInt (sint (TimeStamp payload))
     @ Cause payload @ FullName payload @ AccountName payload @ InvoiceURL payload"

text \<open>
  \<^verbatim>\<open>
  h := hmac.New(sha256.New, []byte(secretKey))
  h.Write([]byte(signedPayload))
  result := hex.EncodeToString(h.Sum(nil))
  \<close>
  The keyed hash of \<^verbatim>\<open>crypto/hmac\<close> over \<^verbatim>\<open>crypto/sha256\<close> is the parameter \<open>H\<close>:
  key and message in, digest bytes out.
\<close>

type_synonym hmac = "string \<Rightarrow> string \<Rightarrow> 8 word list"

definition generateSignature :: "hmac \<Rightarrow> string \<Rightarrow> YayaWebhook \<Rightarrow> string \<times> log_line list" where
  "generateSignature H secretKey payload =
     (let result = EncodeToString (H secretKey (signedPayload payload))
      in (result, [(INFO, ''Generating signature''), (INFO, ''Signature generated'')]))"

text \<open>
  \<^verbatim>\<open>
  signedPayload := y.generateSignature(y.SecretKey, payload)
  return signature == signedPayload
  \<close>
\<close>

definition verifySignature :: "hmac \<Rightarrow> yaya \<Rightarrow> string \<Rightarrow> YayaWebhook \<Rightarrow> bool \<times> log_line list" where
  "verifySignature H y signature payload =
     (let (signedPayload, logged) = generateSignature H (SecretKey y) payload
      in (signature = signedPayload,
          (INFO, ''Verifying signature'') # logged @ [(INFO, ''Signature comparison'')]))"

section \<open>The freshness check\<close>

text \<open>
  \<^verbatim>\<open>
  now := time.Now().Unix()
  diff := now - timestamp
  return diff >= 0 && diff <= int64(tolerance.Seconds())
  \<close>
  The wall-clock read is the explicit argument \<open>now\<close>.
\<close>

definition validateTimestamp :: "int64 \<Rightarrow> int64 \<Rightarrow> Duration \<Rightarrow> bool \<times> log_line list" where
  "validateTimestamp now timestamp tolerance =
     (let diff = now - timestamp
      in (word_sle 0 diff \<and> word_sle diff (Seconds_int64 tolerance),
          [(INFO, ''Validating timestamp'')]))"

section \<open>The store\<close>

text \<open>
  The table \<^verbatim>\<open>webhooks\<close> of \<^verbatim>\<open>saveWebhookToDatabase\<close>: a list of rows with the
  columns of the \<^verbatim>\<open>CREATE TABLE\<close> statement. The database is \<open>None\<close> while the table
  does not exist.
\<close>

record webhook_row =
  id_col :: string
  amount_col :: string
  currency_col :: string
  created_at_time_col :: int64
  timestamp_col :: int64
  cause_col :: string
  full_name_col :: string
  account_name_col :: string
  invoice_url_col :: string
  created_at_col :: Time
  updated_at_col :: Time

type_synonym database = "webhook_row list option"

text \<open>\<^verbatim>\<open>CREATE TABLE IF NOT EXISTS webhooks (id TEXT PRIMARY KEY, ...)\<close>\<close>

definition create_table_if_not_exists :: "database \<Rightarrow> webhook_row list" where
  "create_table_if_not_exists db = (case db of None \<Rightarrow> [] | Some rows \<Rightarrow> rows)"

text \<open>
  \<^verbatim>\<open>
  INSERT INTO webhooks (id, amount, ..., created_at, updated_at) VALUES (?, ..., ?)
  ON CONFLICT(id) DO UPDATE SET
      amount = excluded.amount, currency = excluded.currency,
      created_at_time = excluded.created_at_time, timestamp = excluded.timestamp,
      cause = excluded.cause, full_name = excluded.full_name,
      account_name = excluded.account_name, invoice_url = excluded.invoice_url,
      updated_at = excluded.updated_at
  \<close>
  The row whose primary key equals the new row's is updated in the listed columns (its
  \<^verbatim>\<open>id\<close> and \<^verbatim>\<open>created_at\<close> stay); with no such row the new row is appended.
\<close>

fun insert_on_conflict_update :: "webhook_row \<Rightarrow> webhook_row list \<Rightarrow> webhook_row list" where
  "insert_on_conflict_update excluded [] = [excluded]"
| "insert_on_conflict_update excluded (r # rows) =
     (if id_col r = id_col excluded
      then r\<lparr>amount_col := amount_col excluded,
             currency_col := currency_col excluded,
             created_at_time_col := created_at_time_col excluded,
             timestamp_col := timestamp_col excluded,
             cause_col := cause_col excluded,
             full_name_col := full_name_col excluded,
             account_name_col := account_name_col excluded,
             invoice_url_col := invoice_url_col excluded,
             updated_at_col := updated_at_col excluded\<rparr> # rows
      else r # insert_on_conflict_update excluded rows)"

text \<open>
  What the driver answers at the three places where \<^verbatim>\<open>saveWebhookToDatabase\<close> checks
  \<^verbatim>\<open>err\<close>: \<^verbatim>\<open>sql.Open\<close>, the \<^verbatim>\<open>CREATE TABLE\<close> and the \<^verbatim>\<open>INSERT\<close>. A statement
  that fails leaves the database as it was.
\<close>

record driver =
  open_fails :: bool
  create_fails :: bool
  insert_fails :: bool

datatype save_error = FailedToConnect | FailedToCreateTable | FailedToInsert

text \<open>The values bound to the \<^verbatim>\<open>INSERT\<close>; \<^verbatim>\<open>now\<close> is bound twice.\<close>

definition insert_values :: "Time \<Rightarrow> YayaWebhook \<Rightarrow> webhook_row" where
  "insert_values now webhook =
     \<lparr>id_col = ID webhook,
      amount_col = String (Amount webhook),
      currency_col = Currency webhook,
      created_at_time_col = CreatedAtTime webhook,
      timestamp_col = TimeStamp webhook,
      cause_col = Cause webhook,
      full_name_col = FullName webhook,
      account_name_col = AccountName webhook,
      invoice_url_col = InvoiceURL webhook,
      created_at_col = now,
      updated_at_col = now\<rparr>"

definition saveWebhookToDatabase ::
  "driver \<Rightarrow> Time \<Rightarrow> database \<Rightarrow> YayaWebhook \<Rightarrow> save_error option \<times> database" where
  "saveWebhookToDatabase drv now db webhook =
     (if open_fails drv then (Some FailedToConnect, db)
      else if create_fails drv then (Some FailedToCreateTable, db)
      else if insert_fails drv then (Some FailedToInsert, Some (create_table_if_not_exists db))
      else (None, Some (insert_on_conflict_update (insert_values now webhook)
                          (create_table_if_not_exists db))))"

text \<open>
  \<^verbatim>\<open>SELECT ... FROM webhooks WHERE id = ?\<close> read with \<^verbatim>\<open>QueryRow\<close>, as
  \<^verbatim>\<open>GetWebhookHandler\<close> does: the first row with that key, if any.
\<close>

definition select_by_id :: "string \<Rightarrow> webhook_row list \<Rightarrow> webhook_row option" where
  "select_by_id i rows = find (\<lambda>r. id_col r = i) rows"

text \<open>
  A sequence of calls of \<^verbatim>\<open>saveWebhookToDatabase\<close>, each with the answers of the driver,
  the instant it reads and the event it is given.
\<close>

fun save_all :: "database \<Rightarrow> (driver \<times> Time \<times> YayaWebhook) list \<Rightarrow> database" where
  "save_all db [] = db"
| "save_all db ((drv, now, webhook) # calls) =
     save_all (snd (saveWebhookToDatabase drv now db webhook)) calls"

section \<open>The webhook handler\<close>

text \<open>
  A request as the handler reads it: the value of the \<^verbatim>\<open>YAYA-SIGNATURE\<close> header
  (empty when the header is absent) and the body. The body is \<open>None\<close> when the JSON
  decoder rejects it before reaching the amount; otherwise it carries the decoded fields
  (a field the body leaves out has Go's zero value) and the bytes of the \<^verbatim>\<open>amount\<close>
  value, which the decoder hands to the decimal's \<^verbatim>\<open>UnmarshalJSON\<close>. A body
  without an amount leaves the zero decimal, as the bytes \<^verbatim>\<open>null\<close> do.
\<close>

record json_body =
  id_json :: string
  amount_json :: string
  currency_json :: string
  created_at_time_json :: int64
  timestamp_json :: int64
  cause_json :: string
  full_name_json :: string
  account_name_json :: string
  invoice_url_json :: string

record request =
  signature_header :: string
  body :: "json_body option"

definition Decode :: "json_body option \<Rightarrow> YayaWebhook option" where
  "Decode b =
     (case b of
        None \<Rightarrow> None
      | Some j \<Rightarrow>
          (case UnmarshalJSON (amount_json j) of
             None \<Rightarrow> None
           | Some a \<Rightarrow>
               Some \<lparr>ID = id_json j, Amount = a, Currency = currency_json j,
                     CreatedAtTime = created_at_time_json j, TimeStamp = timestamp_json j,
                     Cause = cause_json j, FullName = full_name_json j,
                     AccountName = account_name_json j, InvoiceURL = invoice_url_json j\<rparr>))"

text \<open>
  The detached task of the handler:
  \<^verbatim>\<open>
  go func() {
      if err := y.saveWebhookToDatabase(req); err != nil {
          y.log.ErrorContext(..., "Failed to save webhook to database", ...)
      } else {
          y.log.InfoContext(..., "Webhook saved to database successfully", ...)
      }
  }()
  \<close>
\<close>

definition save_task :: "driver \<Rightarrow> Time \<Rightarrow> database \<Rightarrow> YayaWebhook \<Rightarrow> log_line list \<times> database" where
  "save_task drv now db req =
     (case saveWebhookToDatabase drv now db req of
        (Some err, db') \<Rightarrow> ([(ERROR, ''Failed to save webhook to database'')], db')
      | (None, db') \<Rightarrow> ([(INFO, ''Webhook saved to database successfully'')], db'))"

text \<open>
  \<^verbatim>\<open>YayayWebhookHandler\<close>. The result is the response written to the caller, the lines
  logged, and the database after the request. \<open>clock\<close> is the wall clock in seconds read
  by the freshness check; \<open>drv\<close> and \<open>now\<close> are the driver's answers and the instant read
  inside the detached task, whose lines come after the handler's own.
\<close>

definition YayayWebhookHandler ::
  "hmac \<Rightarrow> yaya \<Rightarrow> int64 \<Rightarrow> driver \<Rightarrow> Time \<Rightarrow> database \<Rightarrow> request
     \<Rightarrow> Response \<times> log_line list \<times> database" where
  "YayayWebhookHandler H y clock drv now db r =
     (let signature = signature_header r in
      if signature = [] then
        (\<lparr>StatusCode = StatusBadRequest, Message = [], Error = ''signature is missing''\<rparr>,
         [(ERROR, ''Signature is missing'')], db)
      else
        case Decode (body r) of
          None \<Rightarrow>
            (\<lparr>StatusCode = StatusBadRequest, Message = [], Error = ''invalid data''\<rparr>,
             [(ERROR, ''Error decoding request'')], db)
        | Some req \<Rightarrow>
            (let (fresh, log1) = validateTimestamp clock (TimeStamp req) (5 * Minute) in
             if \<not> fresh then
               (\<lparr>StatusCode = StatusBadRequest, Message = [], Error = ''invalid timestamp''\<rparr>,
                log1 @ [(ERROR, ''Invalid timestamp'')], db)
             else
               (let (valid, log2) = verifySignature H y signature req in
                if \<not> valid then
                  (\<lparr>StatusCode = StatusBadRequest, Message = [], Error = ''invalid signature''\<rparr>,
                   log1 @ log2 @ [(ERROR, ''Invalid signature'')], db)
                else
                  (let (log3, db') = save_task drv now db req
                   in (\<lparr>StatusCode = StatusOK, Message = ''Webhook received successfully'',
                        Error = []\<rparr>,
                       log1 @ log2 @ log3, db')))))"

section \<open>The end-to-end scenario\<close>

text \<open>The body of the scenario of the specification, as the decoder delivers it.\<close>

definition scenario_body :: json_body where
  "scenario_body =
     \<lparr>id_json = ''abc123'', amount_json = ''100'', currency_json = ''ETB'',
      created_at_time_json = 1700000000, timestamp_json = 1700000000,
      cause_json = ''Testing'', full_name_json = ''Abebe Kebede'',
      account_name_json = ''abebekebede1'',
      invoice_url_json = ''https://yayawallet.com/en/invoice/xxxx''\<rparr>"

text \<open>The event the decoder makes of that body.\<close>

definition scenario_event :: YayaWebhook where
  "scenario_event =
     \<lparr>ID = ''abc123'', Amount = \<lparr>d_value = 100, d_exp = 0\<rparr>, Currency = ETB,
      CreatedAtTime = 1700000000, TimeStamp = 1700000000, Cause = ''Testing'',
      FullName = ''Abebe Kebede'', AccountName = ''abebekebede1'',
      InvoiceURL = ''https://yayawallet.com/en/invoice/xxxx''\<rparr>"

text \<open>
  The scenario's event with the boundary between cause and full name moved four characters
  to the left.
\<close>

definition split_event :: YayaWebhook where
  "split_event = scenario_event\<lparr>Cause := ''Test'', FullName := ''ingAbebe Kebede''\<rparr>"

section \<open>Wrap-around of the subtraction\<close>

lemma sint64_sub:
  fixes a b :: int64
  shows "sint (a - b) = (sint a - sint b + 2 ^ 63) mod 2 ^ 64 - 2 ^ 63"
  by (simp add: sint_word_ariths signed_take_bit_eq_take_bit_shift take_bit_eq_mod)

lemma sint64_bounds:
  fixes a :: int64
  shows "- 9223372036854775808 \<le> sint a" and "sint a < 9223372036854775808"
  using sint_ge [of a] sint_less [of a] by simp_all

lemma wrap_cases:
  fixes d m :: int
  assumes "- (2 * m) < d" and "d < 2 * m"
  shows "(d + m) mod (2 * m) - m =
           (if d < - m then d + 2 * m else if d < m then d else d - 2 * m)"
proof -
  have mpos: "0 < m" using assms by linarith
  consider "d < - m" | "- m \<le> d \<and> d < m" | "m \<le> d" by linarith
  then show ?thesis
  proof cases
    case 1
    have "(d + m + 2 * m) mod (2 * m) = (d + m) mod (2 * m)" by (rule mod_add_self2)
    moreover have "(d + m + 2 * m) mod (2 * m) = d + m + 2 * m"
      using 1 assms by (intro mod_pos_pos_trivial) simp_all
    ultimately show ?thesis using 1 mpos by simp
  next
    case 2
    have "(d + m) mod (2 * m) = d + m" using 2 by (intro mod_pos_pos_trivial) simp_all
    then show ?thesis using 2 mpos by simp
  next
    case 3
    have "(d - m + 2 * m) mod (2 * m) = (d - m) mod (2 * m)" by (rule mod_add_self2)
    moreover have "(d - m) mod (2 * m) = d - m"
      using 3 assms by (intro mod_pos_pos_trivial) simp_all
    moreover have "d - m + 2 * m = d + m" by simp
    ultimately show ?thesis using 3 mpos by simp
  qed
qed

lemma sint64_sub_cases:
  fixes a b :: int64
  shows "sint (a - b) =
    (if sint a - sint b < - 9223372036854775808 then sint a - sint b + 18446744073709551616
     else if sint a - sint b < 9223372036854775808 then sint a - sint b
     else sint a - sint b - 18446744073709551616)"
proof -
  have "- (2 * 9223372036854775808) < sint a - sint b"
    and "sint a - sint b < 2 * 9223372036854775808"
    using sint64_bounds [of a] sint64_bounds [of b] by simp_all
  from wrap_cases [OF this] show ?thesis
    by (simp add: sint64_sub)
qed

lemma five_minutes: "Seconds_int64 (5 * Minute) = 300"
  by (simp add: Seconds_int64_def Minute_def Second_def)

lemma validateTimestamp_diff:
  "fst (validateTimestamp now ts (5 * Minute))
     \<longleftrightarrow> 0 \<le> sint (now - ts) \<and> sint (now - ts) \<le> 300"
  by (simp add: validateTimestamp_def five_minutes word_sle_eq Let_def)

section \<open>Freshness\<close>

text \<open>
  Claim C3. With the five-minute window the handler passes, the freshness check accepts
  a timestamp exactly when \<open>0 \<le> now - timestamp \<le> 300\<close>, the difference taken over
  the integers: a timestamp equal to the clock or 300 seconds behind it is accepted, one
  301 seconds behind it or one second ahead of it is rejected, and so is every timestamp
  in the future. The subtraction of the code wraps around in 64 bits; it is the integer
  difference for every clock reading at least 300 seconds above the smallest
  \<^verbatim>\<open>int64\<close>, which every wall clock is.
\<close>

theorem validateTimestamp_window:
  fixes now ts :: int64
  assumes "- 9223372036854775808 + 300 \<le> sint now"
  shows "(fst (validateTimestamp now ts (5 * Minute))
            \<longleftrightarrow> 0 \<le> sint now - sint ts \<and> sint now - sint ts \<le> 300)
       \<and> fst (validateTimestamp now now (5 * Minute))
       \<and> fst (validateTimestamp now (now - 300) (5 * Minute))
       \<and> \<not> fst (validateTimestamp now (now - 301) (5 * Minute))
       \<and> \<not> fst (validateTimestamp now (now + 1) (5 * Minute))
       \<and> (sint now < sint ts \<longrightarrow> \<not> fst (validateTimestamp now ts (5 * Minute)))"
proof -
  have window: "fst (validateTimestamp now ts (5 * Minute))
      \<longleftrightarrow> 0 \<le> sint now - sint ts \<and> sint now - sint ts \<le> 300"
    using assms sint64_bounds [of now] sint64_bounds [of ts]
    by (simp add: validateTimestamp_diff sint64_sub_cases)
  have same: "fst (validateTimestamp now now (5 * Minute))"
    by (simp add: validateTimestamp_diff)
  have oldest: "fst (validateTimestamp now (now - 300) (5 * Minute))"
    by (simp add: validateTimestamp_diff)
  have stale: "\<not> fst (validateTimestamp now (now - 301) (5 * Minute))"
    by (simp add: validateTimestamp_diff)
  have ahead: "\<not> fst (validateTimestamp now (now + 1) (5 * Minute))"
    by (simp add: validateTimestamp_diff)
  from window same oldest stale ahead show ?thesis by simp
qed

theorem validateTimestamp_window_witness:
  "- 9223372036854775808 + 300 \<le> sint (1700000000 :: int64)
   \<and> fst (validateTimestamp 1700000000 1699999800 (5 * Minute))
   \<and> fst (validateTimestamp 1700000000 (1700000000 - 300) (5 * Minute))
   \<and> \<not> fst (validateTimestamp 1700000000 (1700000000 - 301) (5 * Minute))
   \<and> \<not> fst (validateTimestamp 1700000000 (1700000000 + 1) (5 * Minute))"
  using validateTimestamp_window [of 1700000000 1699999800] by simp

section \<open>Hexadecimal rendering\<close>






section \<open>Signature reconstruction: order of the fields\<close>


section \<open>The handler, branch by branch\<close>

lemma Decode_scenario: "Decode (Some scenario_body) = Some scenario_event"
  by (simp add: scenario_body_def scenario_event_def ETB_def Decode_def UnmarshalJSON_def
      unquoteIfQuoted_def NewFromString_def not_e_def not_point_def is_digit_def
      parse_digits_def digit_val_def)


lemma fst_verifySignature:
  "fst (verifySignature H y signature payload)
     \<longleftrightarrow> signature = EncodeToString (H (SecretKey y) (signedPayload payload))"
  by (simp add: verifySignature_def generateSignature_def)

lemma snd_verifySignature:
  "snd (verifySignature H y signature payload) =
     [(INFO, ''Verifying signature''), (INFO, ''Generating signature''),
      (INFO, ''Signature generated''), (INFO, ''Signature comparison'')]"
  by (simp add: verifySignature_def generateSignature_def)

lemma snd_validateTimestamp:
  "snd (validateTimestamp clock ts tol) = [(INFO, ''Validating timestamp'')]"
  by (simp add: validateTimestamp_def Let_def)

lemma handler_missing:
  assumes "signature_header r = []"
  shows "YayayWebhookHandler H y clock drv now db r =
    (\<lparr>StatusCode = 400, Message = [], Error = ''signature is missing''\<rparr>,
     [(ERROR, ''Signature is missing'')], db)"
  using assms by (simp add: YayayWebhookHandler_def StatusBadRequest_def)

lemma handler_invalid_data:
  assumes "signature_header r \<noteq> []" and "Decode (body r) = None"
  shows "YayayWebhookHandler H y clock drv now db r =
    (\<lparr>StatusCode = 400, Message = [], Error = ''invalid data''\<rparr>,
     [(ERROR, ''Error decoding request'')], db)"
  using assms by (simp add: YayayWebhookHandler_def StatusBadRequest_def)

lemma handler_stale:
  assumes "signature_header r \<noteq> []" and "Decode (body r) = Some req"
    and "\<not> fst (validateTimestamp clock (TimeStamp req) (5 * Minute))"
  shows "YayayWebhookHandler H y clock drv now db r =
    (\<lparr>StatusCode = 400, Message = [], Error = ''invalid timestamp''\<rparr>,
     [(INFO, ''Validating timestamp''), (ERROR, ''Invalid timestamp'')], db)"
proof -
  obtain fresh log1 where vt: "validateTimestamp clock (TimeStamp req) (5 * Minute) = (fresh, log1)"
    by (cases "validateTimestamp clock (TimeStamp req) (5 * Minute)")
  with assms(3) have "\<not> fresh" by simp
  moreover from vt snd_validateTimestamp [of clock "TimeStamp req" "5 * Minute"]
  have "log1 = [(INFO, ''Validating timestamp'')]" by simp
  ultimately show ?thesis
    using assms(1,2) vt by (simp add: YayayWebhookHandler_def StatusBadRequest_def)
qed

lemma handler_bad_signature:
  assumes "signature_header r \<noteq> []" and "Decode (body r) = Some req"
    and "fst (validateTimestamp clock (TimeStamp req) (5 * Minute))"
    and "signature_header r \<noteq> fst (generateSignature H (SecretKey y) req)"
  shows "YayayWebhookHandler H y clock drv now db r =
    (\<lparr>StatusCode = 400, Message = [], Error = ''invalid signature''\<rparr>,
     [(INFO, ''Validating timestamp''), (INFO, ''Verifying signature''),
      (INFO, ''Generating signature''), (INFO, ''Signature generated''),
      (INFO, ''Signature comparison''), (ERROR, ''Invalid signature'')], db)"
proof -
  obtain fresh log1 where vt: "validateTimestamp clock (TimeStamp req) (5 * Minute) = (fresh, log1)"
    by (cases "validateTimestamp clock (TimeStamp req) (5 * Minute)")
  with assms(3) have fresh: "fresh" by simp
  from vt snd_validateTimestamp [of clock "TimeStamp req" "5 * Minute"]
  have log1: "log1 = [(INFO, ''Validating timestamp'')]" by simp
  obtain valid log2 where vs: "verifySignature H y (signature_header r) req = (valid, log2)"
    by (cases "verifySignature H y (signature_header r) req")
  with assms(4) fst_verifySignature [of H y "signature_header r" req]
  have valid: "\<not> valid" by (simp add: generateSignature_def)
  from vs snd_verifySignature [of H y "signature_header r" req]
  have log2: "log2 = [(INFO, ''Verifying signature''), (INFO, ''Generating signature''),
      (INFO, ''Signature generated''), (INFO, ''Signature comparison'')]" by simp
  show ?thesis
    using assms(1,2) vt vs fresh valid log1 log2
    by (simp add: YayayWebhookHandler_def StatusBadRequest_def)
qed

lemma handler_accept:
  assumes "signature_header r \<noteq> []" and "Decode (body r) = Some req"
    and "fst (validateTimestamp clock (TimeStamp req) (5 * Minute))"
    and "signature_header r = fst (generateSignature H (SecretKey y) req)"
  shows "YayayWebhookHandler H y clock drv now db r =
    (\<lparr>StatusCode = 200, Message = ''Webhook received successfully'', Error = []\<rparr>,
     [(INFO, ''Validating timestamp''), (INFO, ''Verifying signature''),
      (INFO, ''Generating signature''), (INFO, ''Signature generated''),
      (INFO, ''Signature comparison'')] @ fst (save_task drv now db req),
     snd (save_task drv now db req))"
proof -
  obtain fresh log1 where vt: "validateTimestamp clock (TimeStamp req) (5 * Minute) = (fresh, log1)"
    by (cases "validateTimestamp clock (TimeStamp req) (5 * Minute)")
  with assms(3) have fresh: "fresh" by simp
  from vt snd_validateTimestamp [of clock "TimeStamp req" "5 * Minute"]
  have log1: "log1 = [(INFO, ''Validating timestamp'')]" by simp
  obtain valid log2 where vs: "verifySignature H y (signature_header r) req = (valid, log2)"
    by (cases "verifySignature H y (signature_header r) req")
  with assms(4) fst_verifySignature [of H y "signature_header r" req]
  have valid: "valid" by (simp add: generateSignature_def)
  from vs snd_verifySignature [of H y "signature_header r" req]
  have log2: "log2 = [(INFO, ''Verifying signature''), (INFO, ''Generating signature''),
      (INFO, ''Signature generated''), (INFO, ''Signature comparison'')]" by simp
  obtain log3 db' where st: "save_task drv now db req = (log3, db')"
    by (cases "save_task drv now db req")
  show ?thesis
    using assms(1,2) vt vs st fresh valid log1 log2
    by (simp add: YayayWebhookHandler_def StatusOK_def)
qed


lemma handler_response:
  "fst (YayayWebhookHandler H y clock drv now db r) =
     (if signature_header r = []
      then \<lparr>StatusCode = 400, Message = [], Error = ''signature is missing''\<rparr>
      else case Decode (body r) of
             None \<Rightarrow> \<lparr>StatusCode = 400, Message = [], Error = ''invalid data''\<rparr>
           | Some req \<Rightarrow>
               if \<not> fst (validateTimestamp clock (TimeStamp req) (5 * Minute))
               then \<lparr>StatusCode = 400, Message = [], Error = ''invalid timestamp''\<rparr>
               else if signature_header r \<noteq> fst (generateSignature H (SecretKey y) req)
               then \<lparr>StatusCode = 400, Message = [], Error = ''invalid signature''\<rparr>
               else \<lparr>StatusCode = 200, Message = ''Webhook received successfully'',
                      Error = []\<rparr>)"
proof (cases "signature_header r = []")
  case True
  then show ?thesis by (simp add: handler_missing)
next
  case header: False
  show ?thesis
  proof (cases "Decode (body r)")
    case None
    with header show ?thesis by (simp add: handler_invalid_data)
  next
    case (Some req)
    show ?thesis
    proof (cases "fst (validateTimestamp clock (TimeStamp req) (5 * Minute))")
      case False
      with header Some show ?thesis by (simp add: handler_stale)
    next
      case fresh: True
      show ?thesis
      proof (cases "signature_header r = fst (generateSignature H (SecretKey y) req)")
        case False
        with header Some fresh show ?thesis by (simp add: handler_bad_signature)
      next
        case True
        with header Some fresh show ?thesis by (simp add: handler_accept)
      qed
    qed
  qed
qed

lemma fst_save_task:
  "fst (save_task drv now db req) =
     [if fst (saveWebhookToDatabase drv now db req) = None
      then (INFO, ''Webhook saved to database successfully'')
      else (ERROR, ''Failed to save webhook to database'')]"
  by (cases "saveWebhookToDatabase drv now db req")
     (auto simp: save_task_def split: option.splits)

lemma snd_save_task:
  "snd (save_task drv now db req) = snd (saveWebhookToDatabase drv now db req)"
  by (cases "saveWebhookToDatabase drv now db req")
     (auto simp: save_task_def split: option.splits)


section \<open>Order of the checks\<close>

text \<open>
  Claim C2. The handler checks, in this order, that the signature header is present, that
  the body decodes, that the timestamp is fresh and that the signature matches. The first
  check that fails decides the response, each with its own error text, and nothing after
  it runs: the lines logged end with that check's line and the database is untouched. A
  request with a stale timestamp is answered \<^verbatim>\<open>invalid timestamp\<close> whatever its
  signature, and the lines of \<^verbatim>\<open>verifySignature\<close> are not among those logged.
\<close>

theorem handler_check_order:
  "(signature_header r = [] \<longrightarrow>
      YayayWebhookHandler H y clock drv now db r =
        (\<lparr>StatusCode = 400, Message = [], Error = ''signature is missing''\<rparr>,
         [(ERROR, ''Signature is missing'')], db))
   \<and> (signature_header r \<noteq> [] \<and> Decode (body r) = None \<longrightarrow>
      YayayWebhookHandler H y clock drv now db r =
        (\<lparr>StatusCode = 400, Message = [], Error = ''invalid data''\<rparr>,
         [(ERROR, ''Error decoding request'')], db))
   \<and> (signature_header r \<noteq> [] \<and> Decode (body r) = Some req
       \<and> \<not> fst (validateTimestamp clock (TimeStamp req) (5 * Minute)) \<longrightarrow>
      YayayWebhookHandler H y clock drv now db r =
        (\<lparr>StatusCode = 400, Message = [], Error = ''invalid timestamp''\<rparr>,
         [(INFO, ''Validating timestamp''), (ERROR, ''Invalid timestamp'')], db))
   \<and> (signature_header r \<noteq> [] \<and> Decode (body r) = Some req
       \<and> fst (validateTimestamp clock (TimeStamp req) (5 * Minute))
       \<and> \<not> fst (verifySignature H y (signature_header r) req) \<longrightarrow>
      YayayWebhookHandler H y clock drv now db r =
        (\<lparr>StatusCode = 400, Message = [], Error = ''invalid signature''\<rparr>,
         [(INFO, ''Validating timestamp''), (INFO, ''Verifying signature''),
          (INFO, ''Generating signature''), (INFO, ''Signature generated''),
          (INFO, ''Signature comparison''), (ERROR, ''Invalid signature'')], db))
   \<and> (signature_header r \<noteq> [] \<and> Decode (body r) = Some req
       \<and> fst (validateTimestamp clock (TimeStamp req) (5 * Minute))
       \<and> fst (verifySignature H y (signature_header r) req) \<longrightarrow>
      fst (YayayWebhookHandler H y clock drv now db r) =
        \<lparr>StatusCode = 200, Message = ''Webhook received successfully'', Error = []\<rparr>)"
proof (intro conjI impI)
  assume "signature_header r = []"
  then show "YayayWebhookHandler H y clock drv now db r =
        (\<lparr>StatusCode = 400, Message = [], Error = ''signature is missing''\<rparr>,
         [(ERROR, ''Signature is missing'')], db)"
    by (rule handler_missing)
next
  assume "signature_header r \<noteq> [] \<and> Decode (body r) = None"
  then show "YayayWebhookHandler H y clock drv now db r =
        (\<lparr>StatusCode = 400, Message = [], Error = ''invalid data''\<rparr>,
         [(ERROR, ''Error decoding request'')], db)"
    by (simp add: handler_invalid_data)
next
  assume "signature_header r \<noteq> [] \<and> Decode (body r) = Some req
       \<and> \<not> fst (validateTimestamp clock (TimeStamp req) (5 * Minute))"
  then show "YayayWebhookHandler H y clock drv now db r =
        (\<lparr>StatusCode = 400, Message = [], Error = ''invalid timestamp''\<rparr>,
         [(INFO, ''Validating timestamp''), (ERROR, ''Invalid timestamp'')], db)"
    by (simp add: handler_stale)
next
  assume a: "signature_header r \<noteq> [] \<and> Decode (body r) = Some req
       \<and> fst (validateTimestamp clock (TimeStamp req) (5 * Minute))
       \<and> \<not> fst (verifySignature H y (signature_header r) req)"
  then have "signature_header r \<noteq> fst (generateSignature H (SecretKey y) req)"
    by (simp add: fst_verifySignature generateSignature_def)
  with a show "YayayWebhookHandler H y clock drv now db r =
        (\<lparr>StatusCode = 400, Message = [], Error = ''invalid signature''\<rparr>,
         [(INFO, ''Validating timestamp''), (INFO, ''Verifying signature''),
          (INFO, ''Generating signature''), (INFO, ''Signature generated''),
          (INFO, ''Signature comparison''), (ERROR, ''Invalid signature'')], db)"
    by (simp add: handler_bad_signature)
next
  assume a: "signature_header r \<noteq> [] \<and> Decode (body r) = Some req
       \<and> fst (validateTimestamp clock (TimeStamp req) (5 * Minute))
       \<and> fst (verifySignature H y (signature_header r) req)"
  then have "signature_header r = fst (generateSignature H (SecretKey y) req)"
    by (simp add: fst_verifySignature generateSignature_def)
  with a show "fst (YayayWebhookHandler H y clock drv now db r) =
        \<lparr>StatusCode = 200, Message = ''Webhook received successfully'', Error = []\<rparr>"
    by (simp add: handler_accept)
qed

theorem handler_check_order_witness:
  "YayayWebhookHandler (\<lambda>k m. [0xab, 0xcd]) \<lparr>SecretKey = ''secret''\<rparr> 1700000000
       \<lparr>open_fails = False, create_fails = False, insert_fails = False\<rparr> 0 None
       \<lparr>signature_header = [], body = Some scenario_body\<rparr>
     = (\<lparr>StatusCode = 400, Message = [], Error = ''signature is missing''\<rparr>,
        [(ERROR, ''Signature is missing'')], None)
   \<and> YayayWebhookHandler (\<lambda>k m. [0xab, 0xcd]) \<lparr>SecretKey = ''secret''\<rparr> 1700000000
       \<lparr>open_fails = False, create_fails = False, insert_fails = False\<rparr> 0 None
       \<lparr>signature_header = ''abcd'', body = None\<rparr>
     = (\<lparr>StatusCode = 400, Message = [], Error = ''invalid data''\<rparr>,
        [(ERROR, ''Error decoding request'')], None)
   \<and> fst (verifySignature (\<lambda>k m. [0xab, 0xcd]) \<lparr>SecretKey = ''secret''\<rparr> ''abcd''
            scenario_event)
   \<and> YayayWebhookHandler (\<lambda>k m. [0xab, 0xcd]) \<lparr>SecretKey = ''secret''\<rparr> 1700000301
       \<lparr>open_fails = False, create_fails = False, insert_fails = False\<rparr> 0 None
       \<lparr>signature_header = ''abcd'', body = Some scenario_body\<rparr>
     = (\<lparr>StatusCode = 400, Message = [], Error = ''invalid timestamp''\<rparr>,
        [(INFO, ''Validating timestamp''), (ERROR, ''Invalid timestamp'')], None)
   \<and> YayayWebhookHandler (\<lambda>k m. [0xab, 0xcd]) \<lparr>SecretKey = ''secret''\<rparr> 1700000300
       \<lparr>open_fails = False, create_fails = False, insert_fails = False\<rparr> 0 None
       \<lparr>signature_header = ''abce'', body = Some scenario_body\<rparr>
     = (\<lparr>StatusCode = 400, Message = [], Error = ''invalid signature''\<rparr>,
         [(INFO, ''Validating timestamp''), (INFO, ''Verifying signature''),
          (INFO, ''Generating signature''), (INFO, ''Signature generated''),
          (INFO, ''Signature comparison''), (ERROR, ''Invalid signature'')], None)
   \<and> fst (YayayWebhookHandler (\<lambda>k m. [0xab, 0xcd]) \<lparr>SecretKey = ''secret''\<rparr> 1700000300
       \<lparr>open_fails = False, create_fails = False, insert_fails = False\<rparr> 0 None
       \<lparr>signature_header = ''abcd'', body = Some scenario_body\<rparr>)
     = \<lparr>StatusCode = 200, Message = ''Webhook received successfully'', Error = []\<rparr>"
proof -
  let ?H = "\<lambda>(k :: string) (m :: string). [0xab, 0xcd :: 8 word]"
  let ?y = "\<lparr>SecretKey = ''secret''\<rparr>"
  let ?drv = "\<lparr>open_fails = False, create_fails = False, insert_fails = False\<rparr>"
  have ts: "TimeStamp scenario_event = 1700000000"
    by (simp add: scenario_event_def)
  have stale: "\<not> fst (validateTimestamp 1700000301 (TimeStamp scenario_event) (5 * Minute))"
    by (simp add: ts validateTimestamp_diff)
  have fresh: "fst (validateTimestamp 1700000300 (TimeStamp scenario_event) (5 * Minute))"
    by (simp add: ts validateTimestamp_diff)
  have good: "fst (verifySignature ?H ?y ''abcd'' scenario_event)"
    by (simp add: fst_verifySignature hextable_def drop_bit_eq_div)
  have bad: "\<not> fst (verifySignature ?H ?y ''abce'' scenario_event)"
    by (simp add: fst_verifySignature hextable_def drop_bit_eq_div)
  have c1: "YayayWebhookHandler ?H ?y 1700000000 ?drv 0 None
       \<lparr>signature_header = [], body = Some scenario_body\<rparr>
     = (\<lparr>StatusCode = 400, Message = [], Error = ''signature is missing''\<rparr>,
        [(ERROR, ''Signature is missing'')], None)"
    using handler_check_order [where r = "\<lparr>signature_header = [], body = Some scenario_body\<rparr>"
        and H = ?H and y = ?y and clock = 1700000000 and drv = ?drv and now = 0 and db = None]
    by simp
  have c2: "YayayWebhookHandler ?H ?y 1700000000 ?drv 0 None
       \<lparr>signature_header = ''abcd'', body = None\<rparr>
     = (\<lparr>StatusCode = 400, Message = [], Error = ''invalid data''\<rparr>,
        [(ERROR, ''Error decoding request'')], None)"
    using handler_check_order [where r = "\<lparr>signature_header = ''abcd'', body = None\<rparr>"
        and H = ?H and y = ?y and clock = 1700000000 and drv = ?drv and now = 0 and db = None]
    by (simp add: Decode_def)
  have c3: "YayayWebhookHandler ?H ?y 1700000301 ?drv 0 None
       \<lparr>signature_header = ''abcd'', body = Some scenario_body\<rparr>
     = (\<lparr>StatusCode = 400, Message = [], Error = ''invalid timestamp''\<rparr>,
        [(INFO, ''Validating timestamp''), (ERROR, ''Invalid timestamp'')], None)"
    using stale handler_check_order [where r = "\<lparr>signature_header = ''abcd'', body = Some scenario_body\<rparr>"
        and H = ?H and y = ?y and clock = 1700000301 and drv = ?drv and now = 0 and db = None
        and req = scenario_event]
    by (simp add: Decode_scenario)
  have c4: "YayayWebhookHandler ?H ?y 1700000300 ?drv 0 None
       \<lparr>signature_header = ''abce'', body = Some scenario_body\<rparr>
     = (\<lparr>StatusCode = 400, Message = [], Error = ''invalid signature''\<rparr>,
         [(INFO, ''Validating timestamp''), (INFO, ''Verifying signature''),
          (INFO, ''Generating signature''), (INFO, ''Signature generated''),
          (INFO, ''Signature comparison''), (ERROR, ''Invalid signature'')], None)"
    using fresh bad handler_check_order [where r = "\<lparr>signature_header = ''abce'', body = Some scenario_body\<rparr>"
        and H = ?H and y = ?y and clock = 1700000300 and drv = ?drv and now = 0 and db = None
        and req = scenario_event]
    by (simp add: Decode_scenario)
  have c5: "fst (YayayWebhookHandler ?H ?y 1700000300 ?drv 0 None
       \<lparr>signature_header = ''abcd'', body = Some scenario_body\<rparr>)
     = \<lparr>StatusCode = 200, Message = ''Webhook received successfully'', Error = []\<rparr>"
    using fresh good handler_check_order [where r = "\<lparr>signature_header = ''abcd'', body = Some scenario_body\<rparr>"
        and H = ?H and y = ?y and clock = 1700000300 and drv = ?drv and now = 0 and db = None
        and req = scenario_event]
    by (simp add: Decode_scenario)
  from c1 c2 good c3 c4 c5 show ?thesis by (intro conjI)
qed


section \<open>The response contract\<close>

text \<open>
  Claim C9. Every response of the webhook handler carries a status code, 200 or 400, and
  exactly one of the message and the error text is non-empty.
\<close>

theorem handler_response_message_xor_error:
  "(Message (fst (YayayWebhookHandler H y clock drv now db r)) = [])
     \<noteq> (Error (fst (YayayWebhookHandler H y clock drv now db r)) = [])
   \<and> (StatusCode (fst (YayayWebhookHandler H y clock drv now db r)) = 200
      \<or> StatusCode (fst (YayayWebhookHandler H y clock drv now db r)) = 400)"
  by (simp add: handler_response split: option.split)

section \<open>Persistence and the response\<close>

text \<open>
  Claim C8. The response of the handler does not depend on the database, on the answers
  of the driver or on the instant of the write; a request that passes all four checks is
  answered with the success response, and the outcome of the write only decides which
  line the detached task logs and what the database holds afterwards.
\<close>

theorem handler_response_ignores_persistence:
  "fst (YayayWebhookHandler H y clock drv now db r)
     = fst (YayayWebhookHandler H y clock drv' now' db' r)
   \<and> (signature_header r \<noteq> [] \<and> Decode (body r) = Some req
       \<and> fst (validateTimestamp clock (TimeStamp req) (5 * Minute))
       \<and> fst (verifySignature H y (signature_header r) req) \<longrightarrow>
      YayayWebhookHandler H y clock drv now db r =
        (\<lparr>StatusCode = 200, Message = ''Webhook received successfully'', Error = []\<rparr>,
         [(INFO, ''Validating timestamp''), (INFO, ''Verifying signature''),
          (INFO, ''Generating signature''), (INFO, ''Signature generated''),
          (INFO, ''Signature comparison''),
          if fst (saveWebhookToDatabase drv now db req) = None
          then (INFO, ''Webhook saved to database successfully'')
          else (ERROR, ''Failed to save webhook to database'')],
         snd (saveWebhookToDatabase drv now db req)))"
proof (intro conjI impI)
  show "fst (YayayWebhookHandler H y clock drv now db r)
     = fst (YayayWebhookHandler H y clock drv' now' db' r)"
    by (simp only: handler_response)
next
  assume a: "signature_header r \<noteq> [] \<and> Decode (body r) = Some req
       \<and> fst (validateTimestamp clock (TimeStamp req) (5 * Minute))
       \<and> fst (verifySignature H y (signature_header r) req)"
  then have "signature_header r = fst (generateSignature H (SecretKey y) req)"
    by (simp add: fst_verifySignature generateSignature_def)
  with a show "YayayWebhookHandler H y clock drv now db r =
        (\<lparr>StatusCode = 200, Message = ''Webhook received successfully'', Error = []\<rparr>,
         [(INFO, ''Validating timestamp''), (INFO, ''Verifying signature''),
          (INFO, ''Generating signature''), (INFO, ''Signature generated''),
          (INFO, ''Signature comparison''),
          if fst (saveWebhookToDatabase drv now db req) = None
          then (INFO, ''Webhook saved to database successfully'')
          else (ERROR, ''Failed to save webhook to database'')],
         snd (saveWebhookToDatabase drv now db req))"
    by (simp add: handler_accept fst_save_task snd_save_task)
qed

theorem handler_response_ignores_persistence_witness:
  "YayayWebhookHandler (\<lambda>k m. [0xab, 0xcd]) \<lparr>SecretKey = ''secret''\<rparr> 1700000300
       \<lparr>open_fails = True, create_fails = False, insert_fails = False\<rparr> 7 None
       \<lparr>signature_header = ''abcd'', body = Some scenario_body\<rparr>
     = (\<lparr>StatusCode = 200, Message = ''Webhook received successfully'', Error = []\<rparr>,
         [(INFO, ''Validating timestamp''), (INFO, ''Verifying signature''),
          (INFO, ''Generating signature''), (INFO, ''Signature generated''),
          (INFO, ''Signature comparison''), (ERROR, ''Failed to save webhook to database'')],
         None)
   \<and> fst (YayayWebhookHandler (\<lambda>k m. [0xab, 0xcd]) \<lparr>SecretKey = ''secret''\<rparr> 1700000300
       \<lparr>open_fails = False, create_fails = False, insert_fails = False\<rparr> 7 None
       \<lparr>signature_header = ''abcd'', body = Some scenario_body\<rparr>)
     = \<lparr>StatusCode = 200, Message = ''Webhook received successfully'', Error = []\<rparr>"
proof -
  let ?H = "\<lambda>(k :: string) (m :: string). [0xab, 0xcd :: 8 word]"
  let ?y = "\<lparr>SecretKey = ''secret''\<rparr>"
  let ?r = "\<lparr>signature_header = ''abcd'', body = Some scenario_body\<rparr>"
  have fresh: "fst (validateTimestamp 1700000300 (TimeStamp scenario_event) (5 * Minute))"
    by (simp add: scenario_event_def validateTimestamp_diff)
  have good: "fst (verifySignature ?H ?y ''abcd'' scenario_event)"
    by (simp add: fst_verifySignature hextable_def drop_bit_eq_div)
  have failing: "YayayWebhookHandler ?H ?y 1700000300
       \<lparr>open_fails = True, create_fails = False, insert_fails = False\<rparr> 7 None ?r
     = (\<lparr>StatusCode = 200, Message = ''Webhook received successfully'', Error = []\<rparr>,
         [(INFO, ''Validating timestamp''), (INFO, ''Verifying signature''),
          (INFO, ''Generating signature''), (INFO, ''Signature generated''),
          (INFO, ''Signature comparison''), (ERROR, ''Failed to save webhook to database'')],
         None)"
    using fresh good handler_response_ignores_persistence [where r = ?r and H = ?H and y = ?y
        and clock = 1700000300 and now = 7 and db = None and req = scenario_event
        and drv = "\<lparr>open_fails = True, create_fails = False, insert_fails = False\<rparr>"]
    by (simp add: Decode_scenario saveWebhookToDatabase_def)
  have same: "fst (YayayWebhookHandler ?H ?y 1700000300
       \<lparr>open_fails = False, create_fails = False, insert_fails = False\<rparr> 7 None ?r)
     = fst (YayayWebhookHandler ?H ?y 1700000300
       \<lparr>open_fails = True, create_fails = False, insert_fails = False\<rparr> 7 None ?r)"
    using handler_response_ignores_persistence [where r = ?r and H = ?H and y = ?y
        and clock = 1700000300 and now = 7 and db = None and now' = 7 and db' = None
        and drv = "\<lparr>open_fails = False, create_fails = False, insert_fails = False\<rparr>"
        and drv' = "\<lparr>open_fails = True, create_fails = False, insert_fails = False\<rparr>"]
    by simp
  from failing same show ?thesis by simp
qed

section \<open>Colliding events\<close>

text \<open>
  Claim C10. Signature reconstruction is not injective. Moving characters across the
  boundary between cause and full name leaves the concatenation as it is, so the two
  events, which differ, have the same signature under every key and a token that
  verifies for one verifies for the other.
\<close>

theorem signature_not_injective:
  "scenario_event \<noteq> split_event
   \<and> signedPayload scenario_event = signedPayload split_event
   \<and> fst (generateSignature H secretKey scenario_event)
       = fst (generateSignature H secretKey split_event)
   \<and> fst (verifySignature H y token scenario_event)
       = fst (verifySignature H y token split_event)
   \<and> signedPayload (payload\<lparr>Cause := a @ b, FullName := c\<rparr>)
       = signedPayload (payload\<lparr>Cause := a, FullName := b @ c\<rparr>)"
proof -
  have differ: "scenario_event \<noteq> split_event"
  proof
    assume "scenario_event = split_event"
    then have "Cause scenario_event = Cause split_event" by simp
    then show False by (simp add: scenario_event_def split_event_def)
  qed
  have general: "signedPayload (p\<lparr>Cause := a, FullName := b @ c\<rparr>)
      = signedPayload (p\<lparr>Cause := a @ b, FullName := c\<rparr>)" for p a b c
    by (simp add: signedPayload_def)
  have "split_event = scenario_event\<lparr>Cause := ''Test'', FullName := ''ing'' @ ''Abebe Kebede''\<rparr>"
    by (simp add: split_event_def)
  moreover have "scenario_event = scenario_event\<lparr>Cause := ''Test'' @ ''ing'', FullName := ''Abebe Kebede''\<rparr>"
    by (simp add: scenario_event_def)
  ultimately have same: "signedPayload scenario_event = signedPayload split_event"
    using general [where p = scenario_event and a = "''Test''" and b = "''ing''"
        and c = "''Abebe Kebede''"] by simp
  from differ same general [where p = payload and a = a and b = b and c = c] show ?thesis
    by (simp add: generateSignature_def fst_verifySignature)
qed

section \<open>The upsert\<close>

lemma ids_insert_on_conflict_update:
  "map id_col (insert_on_conflict_update e rows) =
     (if id_col e \<in> id_col ` set rows then map id_col rows else map id_col rows @ [id_col e])"
  by (induction rows) auto

lemma distinct_insert_on_conflict_update:
  "distinct (map id_col rows) \<Longrightarrow> distinct (map id_col (insert_on_conflict_update e rows))"
  by (simp add: ids_insert_on_conflict_update)

lemma set_ids_insert_on_conflict_update:
  "id_col ` set (insert_on_conflict_update e rows) = insert (id_col e) (id_col ` set rows)"
proof -
  have "set (map id_col (insert_on_conflict_update e rows))
          = insert (id_col e) (set (map id_col rows))"
    by (auto simp: ids_insert_on_conflict_update)
  then show ?thesis by simp
qed

lemma one_row_per_id:
  "distinct (map id_col rows) \<Longrightarrow> k \<in> id_col ` set rows \<Longrightarrow>
     length (filter (\<lambda>r. id_col r = k) rows) = 1"
proof (induction rows)
  case Nil
  then show ?case by simp
next
  case (Cons r rows)
  show ?case
  proof (cases "id_col r = k")
    case True
    with Cons.prems have "k \<notin> id_col ` set rows" by auto
    then have "filter (\<lambda>r. id_col r = k) rows = []"
      by (auto simp: filter_empty_conv)
    with True show ?thesis by simp
  next
    case False
    with Cons show ?thesis by auto
  qed
qed

lemma count_insert_on_conflict_update:
  assumes "distinct (map id_col rows)"
  shows "length (filter (\<lambda>r. id_col r = id_col e) (insert_on_conflict_update e rows)) = 1"
  using assms
  by (intro one_row_per_id distinct_insert_on_conflict_update)
     (simp_all add: set_ids_insert_on_conflict_update)

lemma updated_row:
  fixes r e :: webhook_row
  shows "id_col r = id_col e \<Longrightarrow>
     r\<lparr>amount_col := amount_col e, currency_col := currency_col e,
       created_at_time_col := created_at_time_col e, timestamp_col := timestamp_col e,
       cause_col := cause_col e, full_name_col := full_name_col e,
       account_name_col := account_name_col e, invoice_url_col := invoice_url_col e,
       updated_at_col := updated_at_col e\<rparr>
     = e\<lparr>created_at_col := created_at_col r\<rparr>"
  by (cases r, cases e) simp

lemma select_insert_on_conflict_update:
  "select_by_id (id_col e) (insert_on_conflict_update e rows) =
     Some (case select_by_id (id_col e) rows of
             None \<Rightarrow> e
           | Some old \<Rightarrow> e\<lparr>created_at_col := created_at_col old\<rparr>)"
  by (induction rows) (auto simp: select_by_id_def updated_row)

lemma select_other_insert_on_conflict_update:
  "i \<noteq> id_col e \<Longrightarrow>
     select_by_id i (insert_on_conflict_update e rows) = select_by_id i rows"
  by (induction rows) (auto simp: select_by_id_def)

lemma insert_on_conflict_update_absent:
  "select_by_id (id_col e) rows = None \<Longrightarrow> insert_on_conflict_update e rows = rows @ [e]"
  by (induction rows) (auto simp: select_by_id_def split: if_splits)

lemma length_insert_on_conflict_update_present:
  "select_by_id (id_col e) rows = Some old \<Longrightarrow>
     length (insert_on_conflict_update e rows) = length rows"
  by (induction rows) (auto simp: select_by_id_def split: if_splits)

lemma ids_saveWebhookToDatabase:
  "set (map id_col (create_table_if_not_exists db))
     \<subseteq> set (map id_col (create_table_if_not_exists (snd (saveWebhookToDatabase drv now db w))))"
  by (auto simp: saveWebhookToDatabase_def create_table_if_not_exists_def
      set_ids_insert_on_conflict_update split: option.splits)

lemma distinct_saveWebhookToDatabase:
  "distinct (map id_col (create_table_if_not_exists db)) \<Longrightarrow>
     distinct (map id_col (create_table_if_not_exists (snd (saveWebhookToDatabase drv now db w))))"
  by (auto simp: saveWebhookToDatabase_def create_table_if_not_exists_def
      distinct_insert_on_conflict_update split: option.splits)

lemma distinct_save_all:
  "distinct (map id_col (create_table_if_not_exists db)) \<Longrightarrow>
     distinct (map id_col (create_table_if_not_exists (save_all db calls)))"
proof (induction calls arbitrary: db)
  case Nil
  then show ?case by simp
next
  case (Cons call calls)
  obtain drv now w where call: "call = (drv, now, w)" by (cases call)
  from Cons.prems
  have "distinct (map id_col (create_table_if_not_exists (snd (saveWebhookToDatabase drv now db w))))"
    by (rule distinct_saveWebhookToDatabase)
  then show ?case using call Cons.IH by simp
qed

lemma ids_save_all:
  "set (map id_col (create_table_if_not_exists db))
     \<subseteq> set (map id_col (create_table_if_not_exists (save_all db calls)))"
proof (induction calls arbitrary: db)
  case Nil
  show ?case by simp
next
  case (Cons call calls)
  obtain drv now w where call: "call = (drv, now, w)" by (cases call)
  have "set (map id_col (create_table_if_not_exists db))
     \<subseteq> set (map id_col (create_table_if_not_exists (snd (saveWebhookToDatabase drv now db w))))"
    by (rule ids_saveWebhookToDatabase)
  also have "\<dots> \<subseteq> set (map id_col (create_table_if_not_exists
                 (save_all (snd (saveWebhookToDatabase drv now db w)) calls)))"
    by (rule Cons.IH)
  finally show ?case using call by simp
qed

lemma saved_rows:
  "fst (saveWebhookToDatabase drv now db w) = None \<Longrightarrow>
     create_table_if_not_exists (snd (saveWebhookToDatabase drv now db w)) =
       insert_on_conflict_update (insert_values now w) (create_table_if_not_exists db)"
  by (simp add: saveWebhookToDatabase_def create_table_if_not_exists_def split: if_splits)

lemma failed_rows:
  "fst (saveWebhookToDatabase drv now db w) \<noteq> None \<Longrightarrow>
     create_table_if_not_exists (snd (saveWebhookToDatabase drv now db w)) =
       create_table_if_not_exists db"
  by (simp add: saveWebhookToDatabase_def create_table_if_not_exists_def
      split: if_splits option.splits)

lemma id_insert_values: "id_col (insert_values now w) = ID w"
  by (simp add: insert_values_def)


lemma select_after_save:
  assumes "fst (saveWebhookToDatabase drv now db w) = None"
  shows "select_by_id (ID w)
           (create_table_if_not_exists (snd (saveWebhookToDatabase drv now db w))) =
         Some (case select_by_id (ID w) (create_table_if_not_exists db) of
                 None \<Rightarrow> insert_values now w
               | Some old \<Rightarrow> (insert_values now w)\<lparr>created_at_col := created_at_col old\<rparr>)"
  using select_insert_on_conflict_update
          [of "insert_values now w" "create_table_if_not_exists db"]
  by (simp add: saved_rows [OF assms] id_insert_values)

section \<open>One row for each identifier\<close>

text \<open>
  Claim C5. From a table with no two rows of the same id (the empty one, say), no
  sequence of calls of \<^verbatim>\<open>saveWebhookToDatabase\<close>, whatever the driver answers, leads
  to a table with two rows of the same id, and an id that has a row keeps one. After two
  calls with the same event, one of which at least succeeds, exactly one row has the
  event's id.
\<close>

theorem one_row_for_each_id:
  assumes "distinct (map id_col (create_table_if_not_exists db))"
  shows "distinct (map id_col (create_table_if_not_exists (save_all db calls)))
       \<and> set (map id_col (create_table_if_not_exists db))
           \<subseteq> set (map id_col (create_table_if_not_exists (save_all db calls)))
       \<and> (fst (saveWebhookToDatabase drv now db w) = None
          \<or> fst (saveWebhookToDatabase drv' now'
                   (snd (saveWebhookToDatabase drv now db w)) w) = None
          \<longrightarrow> length (filter (\<lambda>r. id_col r = ID w)
                 (create_table_if_not_exists
                    (save_all db [(drv, now, w), (drv', now', w)]))) = 1)"
proof (intro conjI impI)
  show "distinct (map id_col (create_table_if_not_exists (save_all db calls)))"
    using assms by (rule distinct_save_all)
next
  show "set (map id_col (create_table_if_not_exists db))
           \<subseteq> set (map id_col (create_table_if_not_exists (save_all db calls)))"
    by (rule ids_save_all)
next
  let ?db1 = "snd (saveWebhookToDatabase drv now db w)"
  let ?db2 = "snd (saveWebhookToDatabase drv' now' ?db1 w)"
  assume some: "fst (saveWebhookToDatabase drv now db w) = None
          \<or> fst (saveWebhookToDatabase drv' now' ?db1 w) = None"
  have d1: "distinct (map id_col (create_table_if_not_exists ?db1))"
    using assms by (rule distinct_saveWebhookToDatabase)
  have "length (filter (\<lambda>r. id_col r = ID w) (create_table_if_not_exists ?db2)) = 1"
  proof (cases "fst (saveWebhookToDatabase drv' now' ?db1 w) = None")
    case True
    then show ?thesis
      using count_insert_on_conflict_update [OF d1, of "insert_values now' w"]
      by (simp add: saved_rows id_insert_values)
  next
    case False
    with some have first: "fst (saveWebhookToDatabase drv now db w) = None" by simp
    from False have "create_table_if_not_exists ?db2 = create_table_if_not_exists ?db1"
      by (rule failed_rows)
    then show ?thesis
      using count_insert_on_conflict_update [OF assms, of "insert_values now w"]
      by (simp add: saved_rows [OF first] id_insert_values)
  qed
  then show "length (filter (\<lambda>r. id_col r = ID w)
                 (create_table_if_not_exists
                    (save_all db [(drv, now, w), (drv', now', w)]))) = 1"
    by simp
qed

theorem one_row_for_each_id_witness:
  "distinct (map id_col (create_table_if_not_exists None))
   \<and> fst (saveWebhookToDatabase
            \<lparr>open_fails = False, create_fails = False, insert_fails = False\<rparr> 10 None
            scenario_event) = None
   \<and> length (filter (\<lambda>r. id_col r = ID scenario_event)
        (create_table_if_not_exists
           (save_all None
              [(\<lparr>open_fails = False, create_fails = False, insert_fails = False\<rparr>, 10,
                scenario_event),
               (\<lparr>open_fails = False, create_fails = False, insert_fails = True\<rparr>, 20,
                scenario_event)]))) = 1
   \<and> distinct (map id_col (create_table_if_not_exists
        (save_all None
           [(\<lparr>open_fails = False, create_fails = False, insert_fails = False\<rparr>, 10,
             scenario_event),
            (\<lparr>open_fails = False, create_fails = False, insert_fails = False\<rparr>, 20,
             split_event)])))"
proof -
  have empty: "distinct (map id_col (create_table_if_not_exists None))"
    by (simp add: create_table_if_not_exists_def)
  have first: "fst (saveWebhookToDatabase
            \<lparr>open_fails = False, create_fails = False, insert_fails = False\<rparr> 10 None
            scenario_event) = None"
    by (simp add: saveWebhookToDatabase_def)
  from empty first
    one_row_for_each_id [OF empty, where w = scenario_event and now = 10 and now' = 20
      and drv = "\<lparr>open_fails = False, create_fails = False, insert_fails = False\<rparr>"
      and drv' = "\<lparr>open_fails = False, create_fails = False, insert_fails = True\<rparr>"
      and calls = "[(\<lparr>open_fails = False, create_fails = False, insert_fails = False\<rparr>, 10,
             scenario_event),
            (\<lparr>open_fails = False, create_fails = False, insert_fails = False\<rparr>, 20,
             split_event)]"]
  show ?thesis by simp
qed

section \<open>What a write changes\<close>

text \<open>
  Claim C6. A call of \<^verbatim>\<open>saveWebhookToDatabase\<close> that returns no error for an id with
  a stored row leaves that row with every column but \<^verbatim>\<open>id\<close> and \<^verbatim>\<open>created_at\<close> set
  from the new event and \<^verbatim>\<open>updated_at\<close> set to the instant of the call;
  \<^verbatim>\<open>created_at\<close> keeps its value, which is the instant of the first write. For an id with
  no row it appends a row with \<^verbatim>\<open>created_at\<close> and \<^verbatim>\<open>updated_at\<close> both that instant.
  Rows of other ids are as before.
\<close>

theorem save_updates_or_inserts:
  assumes "fst (saveWebhookToDatabase drv now db w) = None"
  shows "(select_by_id (ID w) (create_table_if_not_exists db) = None \<longrightarrow>
            create_table_if_not_exists (snd (saveWebhookToDatabase drv now db w)) =
              create_table_if_not_exists db @
                [\<lparr>id_col = ID w, amount_col = String (Amount w), currency_col = Currency w,
                  created_at_time_col = CreatedAtTime w, timestamp_col = TimeStamp w,
                  cause_col = Cause w, full_name_col = FullName w,
                  account_name_col = AccountName w, invoice_url_col = InvoiceURL w,
                  created_at_col = now, updated_at_col = now\<rparr>])
       \<and> (select_by_id (ID w) (create_table_if_not_exists db) = Some old \<longrightarrow>
            select_by_id (ID w)
              (create_table_if_not_exists (snd (saveWebhookToDatabase drv now db w))) =
              Some \<lparr>id_col = ID w, amount_col = String (Amount w), currency_col = Currency w,
                    created_at_time_col = CreatedAtTime w, timestamp_col = TimeStamp w,
                    cause_col = Cause w, full_name_col = FullName w,
                    account_name_col = AccountName w, invoice_url_col = InvoiceURL w,
                    created_at_col = created_at_col old, updated_at_col = now\<rparr>
            \<and> length (create_table_if_not_exists (snd (saveWebhookToDatabase drv now db w)))
                = length (create_table_if_not_exists db))
       \<and> (i \<noteq> ID w \<longrightarrow>
            select_by_id i
              (create_table_if_not_exists (snd (saveWebhookToDatabase drv now db w))) =
              select_by_id i (create_table_if_not_exists db))
       \<and> (select_by_id (ID w) (create_table_if_not_exists db) = None \<and> ID w' = ID w
          \<and> fst (saveWebhookToDatabase drv' now'
                   (snd (saveWebhookToDatabase drv now db w)) w') = None \<longrightarrow>
            select_by_id (ID w)
              (create_table_if_not_exists
                 (snd (saveWebhookToDatabase drv' now'
                         (snd (saveWebhookToDatabase drv now db w)) w'))) =
              Some \<lparr>id_col = ID w, amount_col = String (Amount w'), currency_col = Currency w',
                    created_at_time_col = CreatedAtTime w', timestamp_col = TimeStamp w',
                    cause_col = Cause w', full_name_col = FullName w',
                    account_name_col = AccountName w', invoice_url_col = InvoiceURL w',
                    created_at_col = now, updated_at_col = now'\<rparr>)"
proof (intro conjI impI)
  assume "select_by_id (ID w) (create_table_if_not_exists db) = None"
  then show "create_table_if_not_exists (snd (saveWebhookToDatabase drv now db w)) =
              create_table_if_not_exists db @
                [\<lparr>id_col = ID w, amount_col = String (Amount w), currency_col = Currency w,
                  created_at_time_col = CreatedAtTime w, timestamp_col = TimeStamp w,
                  cause_col = Cause w, full_name_col = FullName w,
                  account_name_col = AccountName w, invoice_url_col = InvoiceURL w,
                  created_at_col = now, updated_at_col = now\<rparr>]"
    using insert_on_conflict_update_absent
            [of "insert_values now w" "create_table_if_not_exists db"]
    by (simp add: saved_rows [OF assms] id_insert_values) (simp add: insert_values_def)
next
  assume old: "select_by_id (ID w) (create_table_if_not_exists db) = Some old"
  then show "select_by_id (ID w)
              (create_table_if_not_exists (snd (saveWebhookToDatabase drv now db w))) =
              Some \<lparr>id_col = ID w, amount_col = String (Amount w), currency_col = Currency w,
                    created_at_time_col = CreatedAtTime w, timestamp_col = TimeStamp w,
                    cause_col = Cause w, full_name_col = FullName w,
                    account_name_col = AccountName w, invoice_url_col = InvoiceURL w,
                    created_at_col = created_at_col old, updated_at_col = now\<rparr>"
    by (simp add: select_after_save [OF assms]) (simp add: insert_values_def)
  from old show "length (create_table_if_not_exists (snd (saveWebhookToDatabase drv now db w)))
                = length (create_table_if_not_exists db)"
    using length_insert_on_conflict_update_present
            [of "insert_values now w" "create_table_if_not_exists db" old]
    by (simp add: saved_rows [OF assms] id_insert_values)
next
  assume "i \<noteq> ID w"
  then show "select_by_id i
              (create_table_if_not_exists (snd (saveWebhookToDatabase drv now db w))) =
              select_by_id i (create_table_if_not_exists db)"
    by (simp add: saved_rows [OF assms] select_other_insert_on_conflict_update id_insert_values)
next
  let ?db1 = "snd (saveWebhookToDatabase drv now db w)"
  assume a: "select_by_id (ID w) (create_table_if_not_exists db) = None \<and> ID w' = ID w
          \<and> fst (saveWebhookToDatabase drv' now' ?db1 w') = None"
  then have second: "fst (saveWebhookToDatabase drv' now' ?db1 w') = None" by simp
  from a have "select_by_id (ID w') (create_table_if_not_exists ?db1) = Some (insert_values now w)"
    by (simp add: select_after_save [OF assms])
  then have "select_by_id (ID w')
      (create_table_if_not_exists (snd (saveWebhookToDatabase drv' now' ?db1 w'))) =
      Some ((insert_values now' w')\<lparr>created_at_col := created_at_col (insert_values now w)\<rparr>)"
    by (simp add: select_after_save [OF second])
  with a show "select_by_id (ID w)
              (create_table_if_not_exists
                 (snd (saveWebhookToDatabase drv' now' ?db1 w'))) =
              Some \<lparr>id_col = ID w, amount_col = String (Amount w'), currency_col = Currency w',
                    created_at_time_col = CreatedAtTime w', timestamp_col = TimeStamp w',
                    cause_col = Cause w', full_name_col = FullName w',
                    account_name_col = AccountName w', invoice_url_col = InvoiceURL w',
                    created_at_col = now, updated_at_col = now'\<rparr>"
    by (simp add: insert_values_def)
qed


lemma String_hundred: "String \<lparr>d_value = 100, d_exp = 0\<rparr> = ''100''"
  by (simp add: String_def FormatInt_def FormatUint.simps digits_def)

theorem save_updates_or_inserts_witness:
  "fst (saveWebhookToDatabase
          \<lparr>open_fails = False, create_fails = False, insert_fails = False\<rparr> 10 None
          scenario_event) = None
   \<and> create_table_if_not_exists
        (snd (saveWebhookToDatabase
                \<lparr>open_fails = False, create_fails = False, insert_fails = False\<rparr> 10 None
                scenario_event)) =
       [\<lparr>id_col = ''abc123'', amount_col = ''100'', currency_col = ''ETB'',
         created_at_time_col = 1700000000, timestamp_col = 1700000000,
         cause_col = ''Testing'', full_name_col = ''Abebe Kebede'',
         account_name_col = ''abebekebede1'',
         invoice_url_col = ''https://yayawallet.com/en/invoice/xxxx'',
         created_at_col = 10, updated_at_col = 10\<rparr>]
   \<and> select_by_id ''abc123''
        (create_table_if_not_exists
           (snd (saveWebhookToDatabase
                   \<lparr>open_fails = False, create_fails = False, insert_fails = False\<rparr> 20
                   (snd (saveWebhookToDatabase
                           \<lparr>open_fails = False, create_fails = False, insert_fails = False\<rparr>
                           10 None scenario_event))
                   split_event))) =
       Some \<lparr>id_col = ''abc123'', amount_col = ''100'', currency_col = ''ETB'',
             created_at_time_col = 1700000000, timestamp_col = 1700000000,
             cause_col = ''Test'', full_name_col = ''ingAbebe Kebede'',
             account_name_col = ''abebekebede1'',
             invoice_url_col = ''https://yayawallet.com/en/invoice/xxxx'',
             created_at_col = 10, updated_at_col = 20\<rparr>"
proof -
  let ?ok = "\<lparr>open_fails = False, create_fails = False, insert_fails = False\<rparr>"
  have first: "fst (saveWebhookToDatabase ?ok 10 None scenario_event) = None"
    by (simp add: saveWebhookToDatabase_def)
  have second: "fst (saveWebhookToDatabase ?ok 20
      (snd (saveWebhookToDatabase ?ok 10 None scenario_event)) split_event) = None"
    by (simp add: saveWebhookToDatabase_def)
  have absent: "select_by_id (ID scenario_event) (create_table_if_not_exists None) = None"
    by (simp add: select_by_id_def create_table_if_not_exists_def)
  have same_id: "ID split_event = ID scenario_event"
    by (simp add: split_event_def)
  have fields: "ID scenario_event = ''abc123''"
    "String (Amount scenario_event) = ''100''" "String (Amount split_event) = ''100''"
    by (simp_all add: scenario_event_def split_event_def String_hundred)
  from first second absent same_id
    save_updates_or_inserts [OF first, where w' = split_event and drv' = ?ok and now' = 20]
  show ?thesis
    by (simp add: fields create_table_if_not_exists_def)
       (simp add: scenario_event_def split_event_def ETB_def)
qed

section \<open>Decimal text read back\<close>


lemma digits_table:
  "list_all (\<lambda>n. is_digit (digits ! n) \<and> digit_val (digits ! n) = n)
     [0, 1, 2, 3, 4, 5, 6, 7, 8, 9]"
  by (simp add: digits_def is_digit_def digit_val_def)

lemma below_ten: "n < 10 \<Longrightarrow> n \<in> set [0, 1, 2, 3, 4, 5, 6, 7, 8, 9 :: nat]"
  by auto

lemma digits_nth:
  assumes "n < 10"
  shows "is_digit (digits ! n)" and "digit_val (digits ! n) = n"
  using below_ten [OF assms] digits_table by (simp_all only: list_all_iff)

lemma parse_digits_snoc: "parse_digits (ds @ [c]) = 10 * parse_digits ds + digit_val c"
  by (simp add: parse_digits_def)

lemma FormatUint_digits: "list_all is_digit (FormatUint n)"
proof (induction n rule: FormatUint.induct)
  case (1 n)
  show ?case
  proof (cases "n < 10")
    case True
    then show ?thesis by (subst FormatUint.simps) (simp add: digits_nth)
  next
    case False
    with "1" show ?thesis by (subst FormatUint.simps) (simp add: digits_nth)
  qed
qed

lemma FormatUint_not_empty: "FormatUint n \<noteq> []"
  by (subst FormatUint.simps) simp

lemma parse_digits_FormatUint: "parse_digits (FormatUint n) = n"
proof (induction n rule: FormatUint.induct)
  case (1 n)
  show ?case
  proof (cases "n < 10")
    case True
    then show ?thesis
      by (subst FormatUint.simps) (simp add: parse_digits_def digits_nth)
  next
    case False
    with "1" show ?thesis
      by (subst FormatUint.simps) (simp add: parse_digits_snoc digits_nth)
  qed
qed

lemma is_digit_plain:
  assumes "is_digit c"
  shows "c \<noteq> CHR ''-''" and "c \<noteq> CHR ''+''" and "not_e c" and "not_point c"
    and "c \<noteq> CHR 0x22" and "c \<noteq> CHR ''n''"
  using assms by (auto simp: is_digit_def not_e_def not_point_def)

lemma ParseInt_FormatUint: "ParseInt (FormatUint n) = Some (int n)"
proof (cases "FormatUint n")
  case Nil
  then show ?thesis by (simp add: FormatUint_not_empty)
next
  case (Cons c cs)
  with FormatUint_digits [of n] have "is_digit c" and all: "list_all is_digit (c # cs)" by simp_all
  then have "c \<noteq> CHR ''-''" and "c \<noteq> CHR ''+''" by (simp_all add: is_digit_plain)
  moreover from Cons parse_digits_FormatUint [of n] have "parse_digits (c # cs) = n" by simp
  ultimately show ?thesis using Cons all by simp
qed

lemma digits_only:
  assumes "list_all is_digit ds"
  shows "takeWhile not_e ds = ds" and "dropWhile not_e ds = []"
    and "takeWhile not_point ds = ds" and "count_list ds CHR ''.'' = 0"
proof -
  from assms have e: "\<forall>c \<in> set ds. not_e c" and p: "\<forall>c \<in> set ds. not_point c"
    by (auto simp: list_all_iff is_digit_plain)
  from e show "takeWhile not_e ds = ds" and "dropWhile not_e ds = []" by simp_all
  from p show "takeWhile not_point ds = ds" by simp
  from p have "CHR ''.'' \<notin> set ds" by (auto simp: not_point_def)
  then show "count_list ds CHR ''.'' = 0" by (simp add: count_list_0_iff)
qed

lemma NewFromString_FormatUint:
  "NewFromString (FormatUint n) = Some \<lparr>d_value = int n, d_exp = 0\<rparr>"
  by (simp add: NewFromString_def digits_only [OF FormatUint_digits] ParseInt_FormatUint)

lemma UnmarshalJSON_FormatUint:
  "UnmarshalJSON (FormatUint n) = Some \<lparr>d_value = int n, d_exp = 0\<rparr>"
proof (cases "FormatUint n")
  case Nil
  then show ?thesis by (simp add: FormatUint_not_empty)
next
  case (Cons c cs)
  with FormatUint_digits [of n] have "is_digit c" by simp
  then have "c \<noteq> CHR 0x22" and "c \<noteq> CHR ''n''" by (simp_all add: is_digit_plain)
  with Cons have "unquoteIfQuoted (FormatUint n) = FormatUint n" and "FormatUint n \<noteq> ''null''"
    by (auto simp: unquoteIfQuoted_def)
  then show ?thesis by (simp add: UnmarshalJSON_def NewFromString_FormatUint)
qed

lemma String_integer: "String \<lparr>d_value = int n, d_exp = 0\<rparr> = FormatUint n"
  by (simp add: String_def FormatInt_def)






lemma parse_digits_Nil: "parse_digits [] = 0"
  by (simp add: parse_digits_def)































section \<open>The text of the amount\<close>




end
